theory Spec2Isabelle
  imports Complex_Main
begin

section \<open>Python values and exceptions\<close>

text \<open>
  The values that travel through the program: the argument mapping of a tool call, the
  fields of a tool result, the content of a transcript turn. A Python \<open>dict\<close> literal is
  an association list in insertion order; a \<open>float\<close> is the real number it denotes
  (every finite double is one); \<open>str\<close> is \<open>string\<close>.
\<close>

datatype pyval =
    PyNone
  | PyBool bool
  | PyInt int
  | PyFloat real
  | PyStr string
  | PyList "pyval list"
  | PyDict "(string \<times> pyval) list"

type_synonym pydict = "(string \<times> pyval) list"

text \<open>
  A raised exception, as far as the program looks at it: whether it is an instance of
  class \<open>Exception\<close> (what \<open>except Exception\<close> catches; \<open>KeyboardInterrupt\<close>,
  \<open>SystemExit\<close> and \<open>GeneratorExit\<close> are not), and its \<open>str(e)\<close>.
\<close>

datatype py_exception = Raised (is_Exception: bool) (str_exc: string)

definition TypeError :: "string \<Rightarrow> py_exception" where
  "TypeError msg = Raised True msg"

text \<open>Truth value of an object, as \<open>if x:\<close> and \<open>x if c else y\<close> test it.\<close>

fun truthy :: "pyval \<Rightarrow> bool" where
  "truthy PyNone = False"
| "truthy (PyBool b) = b"
| "truthy (PyInt n) = (n \<noteq> 0)"
| "truthy (PyFloat x) = (x \<noteq> 0)"
| "truthy (PyStr s) = (s \<noteq> [])"
| "truthy (PyList xs) = (xs \<noteq> [])"
| "truthy (PyDict d) = (d \<noteq> [])"

text \<open>\<open>type(x).__name__\<close>, which the interpreter's \<open>TypeError\<close> messages quote.\<close>

fun type_name :: "pyval \<Rightarrow> string" where
  "type_name PyNone = ''NoneType''"
| "type_name (PyBool b) = ''bool''"
| "type_name (PyInt n) = ''int''"
| "type_name (PyFloat x) = ''float''"
| "type_name (PyStr s) = ''str''"
| "type_name (PyList xs) = ''list''"
| "type_name (PyDict d) = ''dict''"

text \<open>
  \<open>x + n\<close> for an \<open>int\<close> right operand \<open>n\<close>: \<open>bool\<close> is a subclass of \<open>int\<close>, a
  \<open>float\<close> stays a \<open>float\<close> (the rounding of the float sum is not modelled), every
  other left operand raises \<open>TypeError\<close>. The message texts are CPython 3's.
\<close>

fun py_add_int :: "pyval \<Rightarrow> int \<Rightarrow> py_exception + pyval" where
  "py_add_int (PyInt m) n = Inr (PyInt (m + n))"
| "py_add_int (PyBool b) n = Inr (PyInt ((if b then 1 else 0) + n))"
| "py_add_int (PyFloat x) n = Inr (PyFloat (x + of_int n))"
| "py_add_int (PyStr s) n =
     Inl (TypeError ''can only concatenate str (not \"int\") to str'')"
| "py_add_int (PyList xs) n =
     Inl (TypeError ''can only concatenate list (not \"int\") to list'')"
| "py_add_int v n =
     Inl (TypeError (''unsupported operand type(s) for +: '' @ [CHR 0x27] @ type_name v
                     @ [CHR 0x27] @ '' and '' @ [CHR 0x27] @ ''int'' @ [CHR 0x27]))"

text \<open>
  \<open>max(1, x)\<close>: the builtin keeps its first argument unless a later one is strictly
  greater. Comparing \<open>1\<close> with a number is defined; with anything else it raises.
\<close>

fun py_max_1 :: "pyval \<Rightarrow> py_exception + pyval" where
  "py_max_1 (PyInt m) = Inr (if m > 1 then PyInt m else PyInt 1)"
| "py_max_1 (PyBool b) = Inr (PyInt 1)"
| "py_max_1 (PyFloat x) = Inr (if x > 1 then PyFloat x else PyInt 1)"
| "py_max_1 v =
     Inl (TypeError ([CHR 0x27] @ ''>'' @ [CHR 0x27] @ '' not supported between instances of ''
                     @ [CHR 0x27] @ type_name v @ [CHR 0x27] @ '' and ''
                     @ [CHR 0x27] @ ''int'' @ [CHR 0x27]))"

text \<open>
  \<open>round(x, 2)\<close> on a float: the value is rounded to the nearest multiple of
  \<open>1/100\<close>, ties to the even multiple. The model returns that multiple; the
  interpreter returns the double nearest to it, and rounding to the nearest double is
  monotone, so a bound that is itself a double holds for both.
\<close>

definition py_round2 :: "real \<Rightarrow> real" where
  "py_round2 x =
     (let y = x * 100; f = \<lfloor>y\<rfloor>; d = y - of_int f
      in of_int (if d < 1 / 2 then f
                 else if 1 / 2 < d then f + 1
                 else if even f then f else f + 1) / 100)"

section \<open>The standard library the tools call\<close>

text \<open>
  \<open>random\<close> and \<open>time\<close> are not code of this repository: what one call of them
  returns is a parameter of the model. \<open>time.sleep\<close> only passes time and has no
  counterpart here.
\<close>

record stdlib =
  random_choice :: "string list \<Rightarrow> string"
  random_uniform :: "real \<Rightarrow> real \<Rightarrow> real"
  random_randint :: "int \<Rightarrow> int \<Rightarrow> int"
  time_strftime :: "string \<Rightarrow> string"

text \<open>
  What the library documents about one call: \<open>choice(seq)\<close> is an element of
  \<open>seq\<close>, \<open>uniform(a, b)\<close> lies between \<open>a\<close> and \<open>b\<close>, \<open>randint(a, b)\<close> is an
  integer \<open>N\<close> with \<open>a \<le> N \<le> b\<close>.
\<close>

definition choice_ok :: "stdlib \<Rightarrow> string list \<Rightarrow> bool" where
  "choice_ok lib seq = (random_choice lib seq \<in> set seq)"

definition uniform_ok :: "stdlib \<Rightarrow> real \<Rightarrow> real \<Rightarrow> bool" where
  "uniform_ok lib a b = (a \<le> random_uniform lib a b \<and> random_uniform lib a b \<le> b)"

definition randint_ok :: "stdlib \<Rightarrow> int \<Rightarrow> int \<Rightarrow> bool" where
  "randint_ok lib a b = (a \<le> random_randint lib a b \<and> random_randint lib a b \<le> b)"

section \<open>tools.py\<close>

definition get_service_health :: "stdlib \<Rightarrow> pyval \<Rightarrow> py_exception + pyval" where
  "get_service_health lib service_name =
     (let statuses = [''Running'', ''Failed'', ''Degraded''];
          status = random_choice lib statuses
      in Inr (PyDict
           [(''service'', service_name),
            (''status'', PyStr status),
            (''cpu_usage_percent'', PyFloat (py_round2 (random_uniform lib 5 95))),
            (''memory_usage_mb'', PyInt (random_randint lib 128 4096))]))"

definition restart_service :: "stdlib \<Rightarrow> pyval \<Rightarrow> pyval \<Rightarrow> py_exception + pyval" where
  "restart_service lib service_name force =
     Inr (PyDict
       [(''service'', service_name),
        (''action'', PyStr ''restart''),
        (''mode'', PyStr (if truthy force then ''force'' else ''graceful'')),
        (''status'', PyStr ''Success''),
        (''timestamp'', PyStr (time_strftime lib ''%Y-%m-%d %H:%M:%S''))])"

definition scale_cluster :: "stdlib \<Rightarrow> pyval \<Rightarrow> pyval \<Rightarrow> py_exception + pyval" where
  "scale_cluster lib cluster_id replicas =
     (case py_add_int replicas (random_randint lib (- 2) 2) of
        Inl e \<Rightarrow> Inl e
      | Inr shifted \<Rightarrow>
          (case py_max_1 shifted of
             Inl e \<Rightarrow> Inl e
           | Inr previous \<Rightarrow>
               Inr (PyDict
                 [(''cluster_id'', cluster_id),
                  (''previous_replicas'', previous),
                  (''current_replicas'', replicas),
                  (''status'', PyStr ''Scaled'')])))"

text \<open>Reading a field of a result: \<open>result[key]\<close> on a mapping that has the key.\<close>

definition field :: "py_exception + pyval \<Rightarrow> string \<Rightarrow> pyval option" where
  "field r key = (case r of Inr (PyDict d) \<Rightarrow> map_of d key | _ \<Rightarrow> None)"

section \<open>Calling a function with keyword arguments\<close>

text \<open>
  \<open>func(**tool_args)\<close> binds the mapping's entries to the parameters of \<open>func\<close> by
  name. The interpreter raises \<open>TypeError\<close> for a key that names no parameter, then for
  required parameters left without a value; only after a successful binding does the
  body of \<open>func\<close> run. The message texts are CPython 3's (up to 3.12).
\<close>

datatype tool_function = Get_service_health | Restart_service | Scale_cluster

record signature =
  func_name :: string
  required :: "string list"
  optional :: "(string \<times> pyval) list"

fun signature_of :: "tool_function \<Rightarrow> signature" where
  "signature_of Get_service_health =
     \<lparr>func_name = ''get_service_health'', required = [''service_name''], optional = []\<rparr>"
| "signature_of Restart_service =
     \<lparr>func_name = ''restart_service'', required = [''service_name''],
      optional = [(''force'', PyBool False)]\<rparr>"
| "signature_of Scale_cluster =
     \<lparr>func_name = ''scale_cluster'', required = [''cluster_id'', ''replicas''],
      optional = []\<rparr>"

definition quoted :: "string \<Rightarrow> string" where
  "quoted s = [CHR 0x27] @ s @ [CHR 0x27]"

definition digit_char :: "nat \<Rightarrow> char" where
  "digit_char n = ''0123456789'' ! n"

fun str_nat :: "nat \<Rightarrow> string" where
  "str_nat n = (if n < 10 then [digit_char n] else str_nat (n div 10) @ [digit_char (n mod 10)])"

fun name_list_tail :: "string list \<Rightarrow> string" where
  "name_list_tail [] = []"
| "name_list_tail [z] = ''and '' @ quoted z"
| "name_list_tail (a # rest) = quoted a @ '', '' @ name_list_tail rest"

fun name_list :: "string list \<Rightarrow> string" where
  "name_list [] = []"
| "name_list [a] = quoted a"
| "name_list [a, b] = quoted a @ '' and '' @ quoted b"
| "name_list (a # rest) = quoted a @ '', '' @ name_list_tail rest"

definition unexpected_keyword :: "signature \<Rightarrow> string \<Rightarrow> py_exception" where
  "unexpected_keyword sg k =
     TypeError (func_name sg @ ''() got an unexpected keyword argument '' @ quoted k)"

definition missing_arguments :: "signature \<Rightarrow> string list \<Rightarrow> py_exception" where
  "missing_arguments sg ms =
     TypeError (func_name sg @ ''() missing '' @ str_nat (length ms)
                @ '' required positional argument''
                @ (if length ms = 1 then [] else ''s'') @ '': '' @ name_list ms)"

text \<open>
  The required parameters, in order: those the mapping leaves out, and the values of
  the others.
\<close>

fun bind_required :: "pydict \<Rightarrow> string list \<Rightarrow> string list \<times> pyval list" where
  "bind_required kwargs [] = ([], [])"
| "bind_required kwargs (p # ps) =
     (let (missing, vals) = bind_required kwargs ps
      in case map_of kwargs p of
           None \<Rightarrow> (p # missing, vals)
         | Some v \<Rightarrow> (missing, v # vals))"

definition bind_optional :: "pydict \<Rightarrow> (string \<times> pyval) list \<Rightarrow> pyval list" where
  "bind_optional kwargs opts =
     map (\<lambda>(p, dflt). case map_of kwargs p of None \<Rightarrow> dflt | Some v \<Rightarrow> v) opts"

definition bind_kwargs :: "signature \<Rightarrow> pydict \<Rightarrow> py_exception + pyval list" where
  "bind_kwargs sg kwargs =
     (let params = required sg @ map fst (optional sg)
      in case filter (\<lambda>k. k \<notin> set params) (map fst kwargs) of
           k # _ \<Rightarrow> Inl (unexpected_keyword sg k)
         | [] \<Rightarrow>
             (case bind_required kwargs (required sg) of
                ([], vals) \<Rightarrow> Inr (vals @ bind_optional kwargs (optional sg))
              | (missing, _) \<Rightarrow> Inl (missing_arguments sg missing)))"

text \<open>
  The body of the function, run on the values of its parameters in order. A successful
  binding gives one value for each parameter, so the last equation is never reached
  from \<open>call_kwargs\<close> below.
\<close>

fun apply_tool :: "stdlib \<Rightarrow> tool_function \<Rightarrow> pyval list \<Rightarrow> py_exception + pyval" where
  "apply_tool lib Get_service_health [service_name] = get_service_health lib service_name"
| "apply_tool lib Restart_service [service_name, force] =
     restart_service lib service_name force"
| "apply_tool lib Scale_cluster [cluster_id, replicas] =
     scale_cluster lib cluster_id replicas"
| "apply_tool lib f vals =
     Inl (TypeError (func_name (signature_of f) @ ''() called with ''
                     @ str_nat (length vals) @ '' arguments''))"

text \<open>
  What a call does besides returning is recorded as a list of events, so that
  \<^emph>\<open>was invoked\<close> is a property of the model: the entry to \<open>execute_tool\<close>, and the
  entry to the body of a tool.
\<close>

datatype call =
    is_Execute: Execute_called string pydict
  | Tool_invoked tool_function "pyval list"

definition call_kwargs ::
  "stdlib \<Rightarrow> tool_function \<Rightarrow> pydict \<Rightarrow> (py_exception + pyval) \<times> call list" where
  "call_kwargs lib f kwargs =
     (case bind_kwargs (signature_of f) kwargs of
        Inl e \<Rightarrow> (Inl e, [])
      | Inr vals \<Rightarrow> (apply_tool lib f vals, [Tool_invoked f vals]))"

section \<open>agent.py\<close>

text \<open>
  The reasoning engine is outside the repository. One interaction with it is a value:
  whether \<open>model.start_chat\<close> raises, what \<open>chat.send_message\<close> returns or raises, and
  in the response what reading \<open>response.parts\<close>, \<open>dict(fc.args)\<close> and
  \<open>response.text\<close> returns or raises. A part whose \<open>function_call\<close> is false in a
  condition has \<open>part_function_call = None\<close>.
\<close>

record fcall =
  fc_name :: string
  fc_args :: "py_exception + pydict"

record part =
  part_function_call :: "fcall option"

record engine_response =
  resp_parts :: "py_exception + part list"
  resp_text :: "py_exception + string"

record engine =
  start_chat :: "py_exception option"
  send_message :: "string \<Rightarrow> py_exception + engine_response"

datatype decision =
    Action (tool: string) (args: pydict)
  | Chat (response: string)

text \<open>
  The loop over \<open>response.parts\<close>: \<open>Some\<close> is the \<open>return\<close> (or the exception) of
  the first part with a function call, \<open>None\<close> is the loop running to its end.
\<close>

fun scan_parts :: "part list \<Rightarrow> (py_exception + decision) option" where
  "scan_parts [] = None"
| "scan_parts (p # ps) =
     (case part_function_call p of
        Some fc \<Rightarrow>
          Some (case fc_args fc of
                  Inl e \<Rightarrow> Inl e
                | Inr a \<Rightarrow> Inr (Action (fc_name fc) a))
      | None \<Rightarrow> scan_parts ps)"

text \<open>The body of the \<open>try\<close> block.\<close>

definition analyze_try :: "engine \<Rightarrow> string \<Rightarrow> py_exception + decision" where
  "analyze_try eng user_input =
     (case start_chat eng of
        Some e \<Rightarrow> Inl e
      | None \<Rightarrow>
          (case send_message eng user_input of
             Inl e \<Rightarrow> Inl e
           | Inr resp \<Rightarrow>
               (case resp_parts resp of
                  Inl e \<Rightarrow> Inl e
                | Inr ps \<Rightarrow>
                    (case scan_parts ps of
                       Some r \<Rightarrow> r
                     | None \<Rightarrow>
                         (case resp_text resp of
                            Inl e \<Rightarrow> Inl e
                          | Inr t \<Rightarrow> Inr (Chat t))))))"

record turn =
  role :: string
  content :: pyval

definition analyze_request ::
  "engine \<Rightarrow> string \<Rightarrow> turn list \<Rightarrow> py_exception + decision" where
  "analyze_request eng user_input chat_history =
     (case analyze_try eng user_input of
        Inr d \<Rightarrow> Inr d
      | Inl e \<Rightarrow>
          if is_Exception e
          then Inr (Chat (''Error interacting with Agent: '' @ str_exc e))
          else Inl e)"

definition tool_map :: "(string \<times> tool_function) list" where
  "tool_map =
     [(''get_service_health'', Get_service_health),
      (''restart_service'', Restart_service),
      (''scale_cluster'', Scale_cluster)]"

definition error_result :: "string \<Rightarrow> pyval" where
  "error_result msg = PyDict [(''error'', PyStr msg)]"

definition execute_tool ::
  "stdlib \<Rightarrow> string \<Rightarrow> pydict \<Rightarrow> (py_exception + pyval) \<times> call list" where
  "execute_tool lib tool_name tool_args =
     (case map_of tool_map tool_name of
        None \<Rightarrow> (Inr (error_result (''Unknown tool: '' @ tool_name)), [])
      | Some func \<Rightarrow>
          (case call_kwargs lib func tool_args of
             (Inr v, invoked) \<Rightarrow> (Inr v, invoked)
           | (Inl e, invoked) \<Rightarrow>
               if is_Exception e
               then (Inr (error_result (''Tool execution failed: '' @ str_exc e)), invoked)
               else (Inl e, invoked)))"

section \<open>app.py\<close>

text \<open>
  \<open>st.session_state\<close> after the initialisation at the top of the script: the
  transcript and the pending slot. The slot holds \<open>None\<close> or the decision that
  \<open>analyze_request\<close> returned.
\<close>

record session_state =
  messages :: "turn list"
  pending_action :: "decision option"

definition initial_session :: session_state where
  "initial_session = \<lparr>messages = [], pending_action = None\<rparr>"

text \<open>
  The script runs once, top to bottom, for each thing the operator does; in that run
  at most one widget reports an interaction. \<open>No_widget\<close> is a run that none does
  (the run that follows \<open>st.rerun()\<close>, or a refresh of the page).
\<close>

datatype event =
    Clear_clicked
  | Approve_clicked
  | Reject_clicked
  | Chat_submitted string
  | No_widget

text \<open>
  How a section of the script ends: control falls through to the next section,
  \<open>st.rerun()\<close> abandons the run, or an exception leaves the script. The session
  state survives all three.
\<close>

datatype flow = Fallthrough | Rerun | Uncaught py_exception

type_synonym run = "flow \<times> session_state \<times> call list"

text \<open>What one run has around it: the library and the engine.\<close>

record env =
  env_lib :: stdlib
  env_eng :: engine

definition assistant :: "pyval \<Rightarrow> turn" where
  "assistant c = \<lparr>role = ''assistant'', content = c\<rparr>"

definition user :: "pyval \<Rightarrow> turn" where
  "user c = \<lparr>role = ''user'', content = c\<rparr>"

text \<open>The cross mark U+274C that opens the rejection notice, in UTF-8.\<close>

definition cross_mark :: string where
  "cross_mark = [CHR 0xE2, CHR 0x9D, CHR 0x8C]"

definition executed_notice :: "string \<Rightarrow> string" where
  "executed_notice t = ''Executed `'' @ t @ ''`.'' @ [CHR 0x0A, CHR 0x0A] @ ''Result:''"

definition rejected_notice :: "string \<Rightarrow> string" where
  "rejected_notice t = cross_mark @ '' Action `'' @ t @ ''` was rejected by the operator.''"

definition KeyError :: "string \<Rightarrow> py_exception" where
  "KeyError k = Raised True (quoted k)"

text \<open>The sidebar (lines 46 to 53).\<close>

definition sidebar :: "event \<Rightarrow> session_state \<Rightarrow> run" where
  "sidebar ev s =
     (if ev = Clear_clicked
      then (Rerun, s\<lparr>messages := [], pending_action := None\<rparr>, [])
      else (Fallthrough, s, []))"

text \<open>
  The approval widget (lines 70 to 112). It reads \<open>action['tool']\<close> and
  \<open>action['args']\<close> before it draws the buttons, which a decision without these keys
  answers with \<open>KeyError\<close>.
\<close>

definition approval_widget :: "env \<Rightarrow> event \<Rightarrow> session_state \<Rightarrow> run" where
  "approval_widget e ev s =
     (case pending_action s of
        None \<Rightarrow> (Fallthrough, s, [])
      | Some (Chat r) \<Rightarrow> (Uncaught (KeyError ''tool''), s, [])
      | Some (Action t a) \<Rightarrow>
          if ev = Approve_clicked then
            (case execute_tool (env_lib e) t a of
               (Inl x, invoked) \<Rightarrow> (Uncaught x, s, Execute_called t a # invoked)
             | (Inr result, invoked) \<Rightarrow>
                 (Rerun,
                  s\<lparr>messages := messages s @ [assistant (PyStr (executed_notice t)),
                                               assistant result],
                    pending_action := None\<rparr>,
                  Execute_called t a # invoked))
          else if ev = Reject_clicked then
            (Rerun,
             s\<lparr>messages := messages s @ [assistant (PyStr (rejected_notice t))],
               pending_action := None\<rparr>,
             [])
          else (Fallthrough, s, []))"

text \<open>
  The chat input (lines 114 to 135). \<open>st.chat_input\<close> is reached only when the slot
  is empty, and its value counts only when it is a non-empty string.
\<close>

definition chat_input :: "env \<Rightarrow> event \<Rightarrow> session_state \<Rightarrow> run" where
  "chat_input e ev s =
     (if pending_action s \<noteq> None then (Fallthrough, s, [])
      else case ev of
        Chat_submitted prompt \<Rightarrow>
          if prompt = [] then (Fallthrough, s, [])
          else
            (let s1 = s\<lparr>messages := messages s @ [user (PyStr prompt)]\<rparr>
             in case analyze_request (env_eng e) prompt (messages s1) of
                  Inl x \<Rightarrow> (Uncaught x, s1, [])
                | Inr (Chat r) \<Rightarrow>
                    (Fallthrough, s1\<lparr>messages := messages s1 @ [assistant (PyStr r)]\<rparr>, [])
                | Inr (Action t a) \<Rightarrow>
                    (Rerun, s1\<lparr>pending_action := Some (Action t a)\<rparr>, []))
      | _ \<Rightarrow> (Fallthrough, s, []))"

text \<open>
  One run of the script: the sections in order, until one does not fall through. The
  styling, the page header and the display of the transcript (lines 11 to 31, 41 to 43
  and 55 to 67) change no state and have no counterpart here.
\<close>

definition run_script :: "env \<Rightarrow> event \<Rightarrow> session_state \<Rightarrow> run" where
  "run_script e ev s =
     (case sidebar ev s of
        (Fallthrough, s1, c1) \<Rightarrow>
          (case approval_widget e ev s1 of
             (Fallthrough, s2, c2) \<Rightarrow>
               (case chat_input e ev s2 of (f, s3, c3) \<Rightarrow> (f, s3, c1 @ c2 @ c3))
           | (f, s2, c2) \<Rightarrow> (f, s2, c1 @ c2))
      | r \<Rightarrow> r)"

text \<open>
  A session: the runs for a sequence of operator events, each with the world it meets,
  from a given state. The result is the state after the last run and all calls made.
\<close>

fun run_events :: "(env \<times> event) list \<Rightarrow> session_state \<Rightarrow> session_state \<times> call list" where
  "run_events [] s = (s, [])"
| "run_events ((e, ev) # rest) s =
     (case run_script e ev s of
        (f, s', c) \<Rightarrow> (case run_events rest s' of (s'', c') \<Rightarrow> (s'', c @ c')))"

section \<open>Concrete worlds\<close>

text \<open>
  Library outcomes used in the examples: one where every draw is the lower end of its
  range, one where \<open>choice\<close> takes the last element, \<open>uniform\<close> gives \<open>42.125\<close> and
  \<open>randint\<close> the upper end.
\<close>

definition lib_low :: stdlib where
  "lib_low = \<lparr>random_choice = hd, random_uniform = (\<lambda>a b. a),
              random_randint = (\<lambda>a b. a),
              time_strftime = (\<lambda>fmt. ''2024-01-01 00:00:00'')\<rparr>"

definition lib_mid :: stdlib where
  "lib_mid = \<lparr>random_choice = last, random_uniform = (\<lambda>a b. 42.125),
              random_randint = (\<lambda>a b. b),
              time_strftime = (\<lambda>fmt. ''2024-01-01 00:00:00'')\<rparr>"

text \<open>
  Engines: one that answers with a call of \<open>get_service_health\<close> for \<open>web-api\<close>, one
  whose \<open>send_message\<close> raises \<open>Exception("API Timeout")\<close>, one that answers in text,
  and one whose response has a text part followed by two function calls.
\<close>

definition no_text :: "py_exception + string" where
  "no_text = Inl (Raised True ''no text in response'')"

definition health_call :: fcall where
  "health_call = \<lparr>fc_name = ''get_service_health'',
                   fc_args = Inr [(''service_name'', PyStr ''web-api'')]\<rparr>"

definition scale_call :: fcall where
  "scale_call = \<lparr>fc_name = ''scale_cluster'',
                  fc_args = Inr [(''cluster_id'', PyStr ''prod''), (''replicas'', PyInt 5)]\<rparr>"

definition restart_call :: fcall where
  "restart_call = \<lparr>fc_name = ''restart_service'',
                    fc_args = Inr [(''service_name'', PyStr ''db'')]\<rparr>"

definition engine_health :: engine where
  "engine_health =
     \<lparr>start_chat = None,
      send_message = (\<lambda>u. Inr \<lparr>resp_parts = Inr [\<lparr>part_function_call = Some health_call\<rparr>],
                                resp_text = no_text\<rparr>)\<rparr>"

definition engine_timeout :: engine where
  "engine_timeout =
     \<lparr>start_chat = None, send_message = (\<lambda>u. Inl (Raised True ''API Timeout''))\<rparr>"

definition two_calls :: engine_response where
  "two_calls =
     \<lparr>resp_parts = Inr [\<lparr>part_function_call = None\<rparr>,
                        \<lparr>part_function_call = Some scale_call\<rparr>,
                        \<lparr>part_function_call = Some restart_call\<rparr>],
      resp_text = no_text\<rparr>"

definition engine_two_calls :: engine where
  "engine_two_calls = \<lparr>start_chat = None, send_message = (\<lambda>u. Inr two_calls)\<rparr>"

definition env_health :: env where
  "env_health = \<lparr>env_lib = lib_mid, env_eng = engine_health\<rparr>"

text \<open>The session after the operator asked for the health of \<open>web-api\<close>.\<close>

definition awaiting_health :: session_state where
  "awaiting_health =
     \<lparr>messages = [user (PyStr ''Check health of web-api'')],
      pending_action = Some (Action ''get_service_health''
                                    [(''service_name'', PyStr ''web-api'')])\<rparr>"

section \<open>The simulated tools\<close>

text \<open>Rounding to two decimals keeps a value between bounds that have two decimals.\<close>

lemma py_round2_bounds:
  assumes "lo \<le> x" "x \<le> hi" "lo * 100 \<in> \<int>" "hi * 100 \<in> \<int>"
  shows "lo \<le> py_round2 x \<and> py_round2 x \<le> hi"
proof -
  obtain l where l: "lo * 100 = of_int l" using assms(3) by (auto elim: Ints_cases)
  obtain h where h: "hi * 100 = of_int h" using assms(4) by (auto elim: Ints_cases)
  define y where "y = x * 100"
  define f where "f = \<lfloor>y\<rfloor>"
  have ly: "of_int l \<le> y" and yh: "y \<le> of_int h"
    using assms(1,2) l h by (simp_all add: y_def flip: l h)
  have lf: "l \<le> f" using ly by (simp add: f_def le_floor_iff)
  have fh: "f \<le> h" using yh by (simp add: f_def floor_le_iff)
  have up: "f + 1 \<le> h" if "y - of_int f > 0"
  proof -
    have "of_int f < y" using that by simp
    then have "of_int f < (of_int h :: real)" using yh by linarith
    then show ?thesis by simp
  qed
  define k where "k = (if y - of_int f < 1 / 2 then f
                 else if 1 / 2 < y - of_int f then f + 1
                 else if even f then f else f + 1)"
  have k: "l \<le> k \<and> k \<le> h"
    using lf fh up by (auto simp: k_def)
  have r: "py_round2 x = of_int k / 100"
    by (simp add: py_round2_def Let_def y_def f_def k_def)
  have "lo = of_int l / 100" "hi = of_int h / 100" using l h by (simp_all flip: l h)
  then show ?thesis using k by (simp add: r divide_le_cancel)
qed

text \<open>
  Claim C8. For every cluster id and every integer \<open>replicas \<ge> 0\<close>, \<open>scale_cluster\<close>
  returns a mapping whose \<open>cluster_id\<close> is the input, whose \<open>current_replicas\<close> is the
  requested number, whose \<open>previous_replicas\<close> is at least 1 and whose \<open>status\<close> is
  \<open>Scaled\<close>, whatever \<open>random.randint\<close> returns.
\<close>

theorem scale_cluster_result:
  assumes "0 \<le> replicas"
  shows "let r = scale_cluster l (PyStr cluster_id) (PyInt replicas)
         in field r ''cluster_id'' = Some (PyStr cluster_id)
          \<and> field r ''current_replicas'' = Some (PyInt replicas)
          \<and> (\<exists>previous. field r ''previous_replicas'' = Some (PyInt previous) \<and> 1 \<le> previous)
          \<and> field r ''status'' = Some (PyStr ''Scaled'')"
  by (simp add: scale_cluster_def field_def)

theorem scale_cluster_result_witness:
  "(0::int) \<le> 5 \<and>
   (let r = scale_cluster lib_low (PyStr ''prod'') (PyInt 5)
    in field r ''cluster_id'' = Some (PyStr ''prod'')
     \<and> field r ''current_replicas'' = Some (PyInt 5)
     \<and> field r ''previous_replicas'' = Some (PyInt 3)
     \<and> field r ''status'' = Some (PyStr ''Scaled''))"
  using scale_cluster_result [of 5 lib_low "''prod''"]
  by (simp add: scale_cluster_def field_def lib_low_def)

text \<open>
  Claim C10. For every integer \<open>replicas \<ge> 0\<close> and every value \<open>d\<close> that
  \<open>random.randint(-2, 2)\<close> can return, \<open>previous_replicas\<close> is \<open>max(1, replicas + d)\<close>
  with \<open>-2 \<le> d \<le> 2\<close>, and it differs from \<open>replicas\<close> by at most 2.
\<close>

theorem previous_replicas_near_target:
  assumes "0 \<le> replicas" and "randint_ok l (- 2) 2"
  shows "\<exists>d. - 2 \<le> d \<and> d \<le> 2
           \<and> field (scale_cluster l (PyStr cluster_id) (PyInt replicas)) ''previous_replicas''
               = Some (PyInt (max 1 (replicas + d)))
           \<and> \<bar>max 1 (replicas + d) - replicas\<bar> \<le> 2"
proof -
  define d where "d = random_randint l (- 2) 2"
  have d: "- 2 \<le> d" "d \<le> 2" using assms(2) by (simp_all add: randint_ok_def d_def)
  have "field (scale_cluster l (PyStr cluster_id) (PyInt replicas)) ''previous_replicas''
          = Some (PyInt (max 1 (replicas + d)))"
    by (simp add: scale_cluster_def field_def d_def max_def)
  moreover have "\<bar>max 1 (replicas + d) - replicas\<bar> \<le> 2"
    using assms(1) d by (auto simp: max_def)
  ultimately show ?thesis using d by blast
qed

theorem previous_replicas_near_target_witness:
  "(0::int) \<le> 0 \<and> randint_ok lib_low (- 2) 2
   \<and> random_randint lib_low (- 2) 2 = - 2
   \<and> field (scale_cluster lib_low (PyStr ''prod'') (PyInt 0)) ''previous_replicas''
        = Some (PyInt 1)
   \<and> (\<exists>d. - 2 \<le> d \<and> d \<le> 2
           \<and> field (scale_cluster lib_low (PyStr ''prod'') (PyInt 0)) ''previous_replicas''
               = Some (PyInt (max 1 (0 + d)))
           \<and> \<bar>max 1 (0 + d) - 0\<bar> \<le> 2)"
  using previous_replicas_near_target [of 0 lib_low "''prod''"]
  by (simp add: randint_ok_def lib_low_def scale_cluster_def field_def)

text \<open>
  Claim C9. For every service name, \<open>get_service_health\<close> returns a mapping whose
  \<open>service\<close> is the input, whose \<open>status\<close> is one of \<open>Running\<close>, \<open>Failed\<close>,
  \<open>Degraded\<close>, whose \<open>cpu_usage_percent\<close> lies in \<open>[5, 95]\<close> and whose
  \<open>memory_usage_mb\<close> lies in \<open>[128, 4096]\<close>, for every outcome of \<open>random.choice\<close>,
  \<open>random.uniform(5.0, 95.0)\<close> and \<open>random.randint(128, 4096)\<close> that the library
  allows.
\<close>

theorem get_service_health_result:
  assumes "choice_ok l [''Running'', ''Failed'', ''Degraded'']"
      and "uniform_ok l 5 95"
      and "randint_ok l 128 4096"
  shows "let r = get_service_health l (PyStr service_name)
         in field r ''service'' = Some (PyStr service_name)
          \<and> (\<exists>status. field r ''status'' = Some (PyStr status)
                 \<and> status \<in> {''Running'', ''Failed'', ''Degraded''})
          \<and> (\<exists>cpu. field r ''cpu_usage_percent'' = Some (PyFloat cpu) \<and> 5 \<le> cpu \<and> cpu \<le> 95)
          \<and> (\<exists>mem. field r ''memory_usage_mb'' = Some (PyInt mem) \<and> 128 \<le> mem \<and> mem \<le> 4096)"
proof -
  let ?u = "random_uniform l 5 95"
  have "5 \<le> ?u" "?u \<le> 95" using assms(2) by (simp_all add: uniform_ok_def)
  then have cpu: "5 \<le> py_round2 ?u \<and> py_round2 ?u \<le> 95"
    by (intro py_round2_bounds) simp_all
  have st: "random_choice l [''Running'', ''Failed'', ''Degraded'']
              \<in> {''Running'', ''Failed'', ''Degraded''}"
    using assms(1) by (simp add: choice_ok_def)
  have mem: "128 \<le> random_randint l 128 4096 \<and> random_randint l 128 4096 \<le> 4096"
    using assms(3) by (simp add: randint_ok_def)
  show ?thesis
    using cpu st mem by (simp add: get_service_health_def field_def Let_def)
qed

theorem get_service_health_result_witness:
  "choice_ok lib_mid [''Running'', ''Failed'', ''Degraded'']
   \<and> uniform_ok lib_mid 5 95
   \<and> randint_ok lib_mid 128 4096
   \<and> (let r = get_service_health lib_mid (PyStr ''web-api'')
      in field r ''service'' = Some (PyStr ''web-api'')
       \<and> field r ''status'' = Some (PyStr ''Degraded'')
       \<and> field r ''cpu_usage_percent'' = Some (PyFloat 42.12)
       \<and> field r ''memory_usage_mb'' = Some (PyInt 4096))"
  using get_service_health_result [of lib_mid "''web-api''"]
  by (simp add: choice_ok_def uniform_ok_def randint_ok_def lib_mid_def
        get_service_health_def field_def py_round2_def Let_def)

section \<open>The tool registry\<close>

text \<open>
  Everything a tool call can raise is an instance of \<open>Exception\<close>: the binding and the
  arithmetic of \<open>scale_cluster\<close> raise \<open>TypeError\<close>. So the handler of \<open>execute_tool\<close>
  catches it, and \<open>execute_tool\<close> always returns.
\<close>

lemma bind_required_missing:
  "fst (bind_required kwargs ps) = filter (\<lambda>p. map_of kwargs p = None) ps"
  by (induction ps) (auto split: prod.splits option.splits)

lemma bind_required_length:
  "length (fst (bind_required kwargs ps)) + length (snd (bind_required kwargs ps)) = length ps"
  by (induction ps) (auto split: prod.splits option.splits)

lemma bind_kwargs_length:
  assumes "bind_kwargs sg kwargs = Inr vals"
  shows "length vals = length (required sg) + length (optional sg)"
proof -
  obtain ms vs where b: "bind_required kwargs (required sg) = (ms, vs)"
    by (cases "bind_required kwargs (required sg)")
  have "ms = []" and "vals = vs @ bind_optional kwargs (optional sg)"
    using assms b by (auto simp: bind_kwargs_def Let_def split: list.splits)
  then show ?thesis
    using bind_required_length [of kwargs "required sg"] b by (simp add: bind_optional_def)
qed

lemma bind_kwargs_exn: "bind_kwargs sg kwargs = Inl x \<Longrightarrow> is_Exception x"
  by (auto simp: bind_kwargs_def Let_def unexpected_keyword_def missing_arguments_def
        TypeError_def split: list.splits prod.splits)

lemma py_add_int_exn: "py_add_int v n = Inl x \<Longrightarrow> is_Exception x"
  by (cases v) (auto simp: TypeError_def)

lemma py_max_1_exn: "py_max_1 v = Inl x \<Longrightarrow> is_Exception x"
  by (cases v) (auto simp: TypeError_def)

lemma scale_cluster_exn: "scale_cluster l c r = Inl x \<Longrightarrow> is_Exception x"
  by (auto simp: scale_cluster_def split: sum.splits dest: py_add_int_exn py_max_1_exn)

lemma apply_tool_exn: "apply_tool l f vals = Inl x \<Longrightarrow> is_Exception x"
  by (induction l f vals rule: apply_tool.induct)
     (auto simp: get_service_health_def restart_service_def TypeError_def
           dest: scale_cluster_exn)

lemma call_kwargs_exn: "call_kwargs l f kwargs = (Inl x, c) \<Longrightarrow> is_Exception x"
  by (auto simp: call_kwargs_def split: sum.splits dest: bind_kwargs_exn apply_tool_exn)

lemma call_kwargs_calls: "call_kwargs l f kwargs = (r, c) \<Longrightarrow> filter is_Execute c = []"
  by (auto simp: call_kwargs_def split: sum.splits)

lemma execute_tool_returns: "\<exists>result invoked. execute_tool l n a = (Inr result, invoked)"
  by (auto simp: execute_tool_def split: option.splits prod.splits sum.splits
           dest: call_kwargs_exn)

lemma execute_tool_calls: "execute_tool l n a = (r, c) \<Longrightarrow> filter is_Execute c = []"
  by (auto simp: execute_tool_def split: option.splits prod.splits sum.splits if_splits
           dest: call_kwargs_calls)

text \<open>
  Claim C6. For every tool name that is not a key of \<open>tool_map\<close> and every argument
  mapping, \<open>execute_tool\<close> returns the mapping \<open>{"error": "Unknown tool: <name>"}\<close>;
  it raises nothing and enters no tool (the list of calls is empty).
\<close>

theorem unknown_tool_error:
  assumes "tool_name \<notin> set (map fst tool_map)"
  shows "execute_tool l tool_name tool_args
           = (Inr (PyDict [(''error'', PyStr (''Unknown tool: '' @ tool_name))]), [])"
proof -
  have "map_of tool_map tool_name = None"
    using assms by (simp add: map_of_eq_None_iff)
  then show ?thesis by (simp add: execute_tool_def error_result_def)
qed

theorem unknown_tool_error_witness:
  "''nonexistent_tool'' \<notin> set (map fst tool_map)
   \<and> execute_tool lib_low ''nonexistent_tool'' []
       = (Inr (PyDict [(''error'', PyStr ''Unknown tool: nonexistent_tool'')]), [])"
  using unknown_tool_error [of "''nonexistent_tool''" lib_low "[]"]
  by (simp add: tool_map_def)

text \<open>
  A mapping that leaves out a required parameter, or has a key that names no
  parameter, does not bind.
\<close>

lemma bind_kwargs_fails:
  assumes "(\<exists>p \<in> set (required sg). p \<notin> set (map fst kwargs))
         \<or> (\<exists>k \<in> set (map fst kwargs). k \<notin> set (required sg @ map fst (optional sg)))"
  shows "\<exists>x. bind_kwargs sg kwargs = Inl x \<and> is_Exception x"
proof (cases "filter (\<lambda>k. k \<notin> set (required sg @ map fst (optional sg))) (map fst kwargs)")
  case (Cons k ks)
  then show ?thesis
    by (simp add: bind_kwargs_def Let_def unexpected_keyword_def TypeError_def)
next
  case Nil
  then have "\<forall>k \<in> set (map fst kwargs). k \<in> set (required sg @ map fst (optional sg))"
    by (simp add: filter_empty_conv)
  with assms obtain p where p: "p \<in> set (required sg)" "p \<notin> set (map fst kwargs)"
    by blast
  then have "map_of kwargs p = None" by (simp add: map_of_eq_None_iff)
  with p(1) have "filter (\<lambda>p. map_of kwargs p = None) (required sg) \<noteq> []"
    by (auto simp: filter_empty_conv)
  then obtain m ms vals where "bind_required kwargs (required sg) = (m # ms, vals)"
    using bind_required_missing [of kwargs "required sg"]
    by (cases "bind_required kwargs (required sg)") (auto simp: neq_Nil_conv)
  with Nil show ?thesis
    by (simp add: bind_kwargs_def Let_def missing_arguments_def TypeError_def)
qed

text \<open>
  Claim C7. For every registered tool, an argument mapping that lacks a required
  argument or has a key that is not a parameter of the tool makes \<open>execute_tool\<close>
  return \<open>{"error": "Tool execution failed: <cause>"}\<close>: the extra key is not ignored,
  nothing is raised, and the body of the tool is not entered.
\<close>

theorem strict_argument_binding:
  assumes "map_of tool_map tool_name = Some f"
      and "(\<exists>p \<in> set (required (signature_of f)). p \<notin> set (map fst tool_args))
         \<or> (\<exists>k \<in> set (map fst tool_args).
               k \<notin> set (required (signature_of f) @ map fst (optional (signature_of f))))"
  shows "\<exists>cause. execute_tool l tool_name tool_args
           = (Inr (PyDict [(''error'', PyStr (''Tool execution failed: '' @ cause))]), [])"
proof -
  obtain x where "bind_kwargs (signature_of f) tool_args = Inl x" "is_Exception x"
    using bind_kwargs_fails [OF assms(2)] by blast
  then have "execute_tool l tool_name tool_args
     = (Inr (PyDict [(''error'', PyStr (''Tool execution failed: '' @ str_exc x))]), [])"
    using assms(1) by (simp add: execute_tool_def call_kwargs_def error_result_def)
  then show ?thesis by blast
qed

theorem strict_argument_binding_witness:
  "map_of tool_map ''get_service_health'' = Some Get_service_health
   \<and> ''service_name'' \<in> set (required (signature_of Get_service_health))
   \<and> ''service_name'' \<notin> set (map fst ([] :: pydict))
   \<and> execute_tool lib_low ''get_service_health'' []
       = (Inr (PyDict [(''error'', PyStr (''Tool execution failed: ''
            @ ''get_service_health() missing 1 required positional argument: ''
            @ quoted ''service_name''))]), [])"
  using strict_argument_binding [of "''get_service_health''" Get_service_health "[]" lib_low]
  by (simp add: execute_tool_def tool_map_def call_kwargs_def bind_kwargs_def error_result_def
       missing_arguments_def TypeError_def digit_char_def quoted_def)

section \<open>The interpreter\<close>

lemma scan_parts_first:
  "list_all (\<lambda>q. part_function_call q = None) pre \<Longrightarrow> part_function_call p = Some fc \<Longrightarrow>
   scan_parts (pre @ p # post)
     = Some (case fc_args fc of Inl e \<Rightarrow> Inl e | Inr a \<Rightarrow> Inr (Action (fc_name fc) a))"
  by (induction pre) simp_all

lemma scan_parts_none:
  "list_all (\<lambda>q. part_function_call q = None) ps \<Longrightarrow> scan_parts ps = None"
  by (induction ps) simp_all

text \<open>
  Claim C5. When the engine answers, the decision is an action for the first part that
  carries a function call, whatever parts follow it (a later call is dropped); when no
  part carries one, the decision is a chat reply with \<open>response.text\<close>.
\<close>

theorem first_function_call_honoured:
  assumes "start_chat en = None"
      and "send_message en user_input = Inr resp"
      and "resp_parts resp = Inr ps"
  shows "(\<forall>pre p post fc a.
            ps = pre @ p # post
            \<and> list_all (\<lambda>q. part_function_call q = None) pre
            \<and> part_function_call p = Some fc \<and> fc_args fc = Inr a
            \<longrightarrow> analyze_request en user_input chat_history = Inr (Action (fc_name fc) a))
       \<and> (\<forall>t. list_all (\<lambda>q. part_function_call q = None) ps \<and> resp_text resp = Inr t
            \<longrightarrow> analyze_request en user_input chat_history = Inr (Chat t))"
  using assms
  by (auto simp: analyze_request_def analyze_try_def scan_parts_first scan_parts_none)

theorem first_function_call_honoured_witness:
  "start_chat engine_two_calls = None
   \<and> send_message engine_two_calls ''Scale prod to 5, then restart db'' = Inr two_calls
   \<and> resp_parts two_calls = Inr ([\<lparr>part_function_call = None\<rparr>]
                               @ \<lparr>part_function_call = Some scale_call\<rparr>
                               # [\<lparr>part_function_call = Some restart_call\<rparr>])
   \<and> analyze_request engine_two_calls ''Scale prod to 5, then restart db'' []
       = Inr (Action ''scale_cluster'' [(''cluster_id'', PyStr ''prod''), (''replicas'', PyInt 5)])"
  using first_function_call_honoured
          [of engine_two_calls "''Scale prod to 5, then restart db''" two_calls
              "[\<lparr>part_function_call = None\<rparr>, \<lparr>part_function_call = Some scale_call\<rparr>,
                \<lparr>part_function_call = Some restart_call\<rparr>]" "[]"]
  by (simp add: engine_two_calls_def two_calls_def scale_call_def restart_call_def
        analyze_request_def analyze_try_def)

text \<open>
  Claim C3. Whatever step of the interaction with the engine fails (\<open>start_chat\<close>,
  \<open>send_message\<close>, reading \<open>response.parts\<close>, converting the arguments of the first
  function call, reading \<open>response.text\<close>), \<open>analyze_request\<close> returns the chat reply
  \<open>"Error interacting with Agent: " + str(e)\<close> and raises nothing. A failure is an
  instance of \<open>Exception\<close>, as network errors, malformed responses and timeouts are.
\<close>

theorem interpretation_never_raises:
  assumes "is_Exception x"
      and "start_chat en = Some x
         \<or> start_chat en = None \<and> send_message en user_input = Inl x
         \<or> start_chat en = None \<and> send_message en user_input = Inr resp
            \<and> (resp_parts resp = Inl x
               \<or> (\<exists>ps. resp_parts resp = Inr ps
                    \<and> ((\<exists>pre p post fc. ps = pre @ p # post
                            \<and> list_all (\<lambda>q. part_function_call q = None) pre
                            \<and> part_function_call p = Some fc \<and> fc_args fc = Inl x)
                       \<or> list_all (\<lambda>q. part_function_call q = None) ps
                          \<and> resp_text resp = Inl x)))"
  shows "analyze_request en user_input chat_history
           = Inr (Chat (''Error interacting with Agent: '' @ str_exc x))"
  using assms
  by (auto simp: analyze_request_def analyze_try_def scan_parts_first scan_parts_none)

theorem interpretation_never_raises_witness:
  "is_Exception (Raised True ''API Timeout'')
   \<and> start_chat engine_timeout = None
   \<and> send_message engine_timeout ''Do something'' = Inl (Raised True ''API Timeout'')
   \<and> analyze_request engine_timeout ''Do something'' []
       = Inr (Chat ''Error interacting with Agent: API Timeout'')"
  using interpretation_never_raises
          [of "Raised True ''API Timeout''" engine_timeout "''Do something''" two_calls "[]"]
  by (simp add: engine_timeout_def)

section \<open>The session\<close>

subsection \<open>One run of the script\<close>

lemma approval_widget_approve:
  assumes "pending_action s = Some (Action t a)"
      and "execute_tool (env_lib e) t a = (Inr result, invoked)"
  shows "approval_widget e Approve_clicked s
           = (Rerun,
              s\<lparr>messages := messages s @ [assistant (PyStr (executed_notice t)),
                                           assistant result],
                pending_action := None\<rparr>,
              Execute_called t a # invoked)"
  using assms by (simp add: approval_widget_def)

lemma run_script_reject:
  assumes "pending_action s = Some (Action t a)"
  shows "run_script e Reject_clicked s
           = (Rerun,
              s\<lparr>messages := messages s @ [assistant (PyStr (rejected_notice t))],
                pending_action := None\<rparr>,
              [])"
  using assms by (simp add: run_script_def sidebar_def approval_widget_def)

lemma chat_input_calls: "chat_input e ev s = (f, s', c) \<Longrightarrow> c = []"
  by (auto simp: chat_input_def Let_def split: if_splits event.splits sum.splits decision.splits)

lemma approval_widget_execute:
  assumes "approval_widget e ev s = (f, s', c)"
  shows "Execute_called n x \<in> set c
           \<longleftrightarrow> ev = Approve_clicked \<and> pending_action s = Some (Action n x)"
proof -
  have *: "Execute_called n x \<notin> set c'" if "execute_tool l t a = (r, c')" for l t a r c'
    using execute_tool_calls [OF that] by (auto simp: filter_empty_conv)
  show ?thesis
    using assms
    by (auto simp: approval_widget_def split: option.splits decision.splits if_splits
        prod.splits sum.splits dest: *)
qed

lemma run_script_execute:
  "Execute_called n x \<in> set (snd (snd (run_script e ev s)))
     \<longleftrightarrow> ev = Approve_clicked \<and> pending_action s = Some (Action n x)"
proof (cases "ev = Clear_clicked")
  case True
  then show ?thesis by (simp add: run_script_def sidebar_def)
next
  case False
  obtain f s' c where aw: "approval_widget e ev s = (f, s', c)"
    by (cases "approval_widget e ev s") auto
  obtain f2 s2 c2 where ci: "chat_input e ev s' = (f2, s2, c2)"
    by (cases "chat_input e ev s'") auto
  have c2: "c2 = []" using chat_input_calls [OF ci] .
  have "snd (snd (run_script e ev s)) = c"
    using False aw ci c2 by (cases f) (simp_all add: run_script_def sidebar_def)
  then show ?thesis using approval_widget_execute [OF aw] by simp
qed

text \<open>
  Claim C2. \<open>execute_tool\<close> is called in a run exactly when the operator approves the
  pending proposal. Rejecting a pending proposal makes no call at all, appends the
  rejection notice as an assistant turn, empties the pending slot and ends the run.
\<close>

theorem reject_never_executes:
  assumes "pending_action s = Some (Action t a)"
  shows "run_script e Reject_clicked s
           = (Rerun,
              s\<lparr>messages := messages s @ [assistant (PyStr (rejected_notice t))],
                pending_action := None\<rparr>,
              [])
       \<and> (\<forall>ev n x. Execute_called n x \<in> set (snd (snd (run_script e ev s)))
              \<longleftrightarrow> ev = Approve_clicked \<and> n = t \<and> x = a)"
  using assms run_script_reject [OF assms] by (auto simp: run_script_execute)

theorem reject_never_executes_witness:
  "pending_action awaiting_health
     = Some (Action ''get_service_health'' [(''service_name'', PyStr ''web-api'')])
   \<and> run_script env_health Reject_clicked awaiting_health
       = (Rerun,
          \<lparr>messages = [user (PyStr ''Check health of web-api''),
                       assistant (PyStr (rejected_notice ''get_service_health''))],
           pending_action = None\<rparr>,
          [])"
  using reject_never_executes
          [of awaiting_health "''get_service_health''" "[(''service_name'', PyStr ''web-api'')]"
              env_health]
  by (simp add: awaiting_health_def)

text \<open>
  Claim C4. Approving a pending proposal calls \<open>execute_tool\<close> once, with the tool and
  the arguments of the proposal. \<open>execute_tool\<close> returns (a result or an error
  mapping); the run appends the announcement and then that value as two assistant
  turns, empties the pending slot and ends.
\<close>

theorem approve_executes_once:
  assumes "pending_action s = Some (Action t a)"
  shows "\<exists>result invoked.
           execute_tool (env_lib e) t a = (Inr result, invoked)
         \<and> run_script e Approve_clicked s
             = (Rerun,
                s\<lparr>messages := messages s @ [assistant (PyStr (executed_notice t)),
                                             assistant result],
                  pending_action := None\<rparr>,
                Execute_called t a # invoked)
         \<and> filter is_Execute (Execute_called t a # invoked) = [Execute_called t a]"
proof -
  obtain result invoked where ex: "execute_tool (env_lib e) t a = (Inr result, invoked)"
    using execute_tool_returns by blast
  have "run_script e Approve_clicked s
             = (Rerun,
                s\<lparr>messages := messages s @ [assistant (PyStr (executed_notice t)),
                                             assistant result],
                  pending_action := None\<rparr>,
                Execute_called t a # invoked)"
    using approval_widget_approve [OF assms ex] by (simp add: run_script_def sidebar_def)
  moreover have "filter is_Execute (Execute_called t a # invoked) = [Execute_called t a]"
    using execute_tool_calls [OF ex] by simp
  ultimately show ?thesis using ex by blast
qed

theorem approve_executes_once_witness:
  "pending_action awaiting_health
     = Some (Action ''get_service_health'' [(''service_name'', PyStr ''web-api'')])
   \<and> run_script env_health Approve_clicked awaiting_health
       = (Rerun,
          \<lparr>messages = [user (PyStr ''Check health of web-api''),
                       assistant (PyStr (executed_notice ''get_service_health'')),
                       assistant (PyDict [(''service'', PyStr ''web-api''),
                                          (''status'', PyStr ''Degraded''),
                                          (''cpu_usage_percent'', PyFloat 42.12),
                                          (''memory_usage_mb'', PyInt 4096)])],
           pending_action = None\<rparr>,
          [Execute_called ''get_service_health'' [(''service_name'', PyStr ''web-api'')],
           Tool_invoked Get_service_health [PyStr ''web-api'']])"
  using approve_executes_once
          [of awaiting_health "''get_service_health''" "[(''service_name'', PyStr ''web-api'')]"
              env_health]
  by (simp add: awaiting_health_def env_health_def lib_mid_def run_script_def sidebar_def
        approval_widget_def execute_tool_def tool_map_def call_kwargs_def bind_kwargs_def
        bind_optional_def get_service_health_def py_round2_def Let_def)

subsection \<open>Sequences of runs\<close>

lemma run_script_keeps_pending:
  assumes "pending_action s = Some d" and "run_script e ev s = (f, s', c)"
  shows "pending_action s' = Some d \<or> pending_action s' = None"
  using assms
  by (auto simp: run_script_def sidebar_def approval_widget_def chat_input_def
      split: if_splits decision.splits prod.splits sum.splits)

lemma run_script_new_pending:
  assumes "pending_action s = None" and "run_script e ev s = (f, s', c)"
      and "pending_action s' = Some d"
  shows "\<exists>prompt t a. ev = Chat_submitted prompt \<and> d = Action t a"
  using assms
  by (auto simp: run_script_def sidebar_def approval_widget_def chat_input_def Let_def
      split: if_splits event.splits decision.splits sum.splits)

lemma run_script_chat_while_pending:
  assumes "pending_action s \<noteq> None" and "run_script e (Chat_submitted prompt) s = (f, s', c)"
  shows "s' = s"
  using assms
  by (auto simp: run_script_def sidebar_def approval_widget_def chat_input_def
      split: if_splits decision.splits prod.splits sum.splits)

text \<open>The slot never holds a chat decision.\<close>

lemma run_script_no_chat_pending:
  assumes "\<forall>r. pending_action s \<noteq> Some (Chat r)" and "run_script e ev s = (f, s', c)"
  shows "\<forall>r. pending_action s' \<noteq> Some (Chat r)"
proof (cases "pending_action s")
  case None
  show ?thesis
  proof (cases "pending_action s'")
    case (Some d)
    then show ?thesis using run_script_new_pending [OF None assms(2) Some] by auto
  qed simp
next
  case (Some d)
  then show ?thesis using run_script_keeps_pending [OF Some assms(2)] assms(1) by auto
qed

lemma run_events_no_chat_pending:
  "\<forall>r. pending_action s0 \<noteq> Some (Chat r) \<Longrightarrow> run_events evs s0 = (s, c) \<Longrightarrow>
   \<forall>r. pending_action s \<noteq> Some (Chat r)"
proof (induction evs arbitrary: s0 c)
  case Nil
  then show ?case by simp
next
  case (Cons x evs)
  obtain e ev where x: "x = (e, ev)" by (cases x)
  obtain f s1 c1 where st: "run_script e ev s0 = (f, s1, c1)"
    by (cases "run_script e ev s0") auto
  obtain s2 c2 where rest: "run_events evs s1 = (s2, c2)"
    by (cases "run_events evs s1") auto
  have "s2 = s" using Cons.prems(2) x st rest by simp
  moreover have "\<forall>r. pending_action s1 \<noteq> Some (Chat r)"
    using run_script_no_chat_pending [OF Cons.prems(1) st] .
  ultimately show ?case using Cons.IH rest by blast
qed

lemma run_script_decision_clears:
  assumes "pending_action s = Some (Action t a)"
      and "ev = Approve_clicked \<or> ev = Reject_clicked"
      and "run_script e ev s = (f, s', c)"
  shows "pending_action s' = None"
proof -
  obtain result invoked where ex: "execute_tool (env_lib e) t a = (Inr result, invoked)"
    using execute_tool_returns by blast
  show ?thesis
    using assms ex
    by (auto simp: run_script_def sidebar_def approval_widget_def)
qed

text \<open>
  Claim C1. After any sequence of operator events from the initial session, the
  session has one pending slot, and the next run treats it so: a pending action stays
  or is cleared, never replaced; a pending action appears only when the slot was empty,
  by a text submission that the interpreter turned into an action; approving or
  rejecting empties the slot; and text submitted while an action is pending changes
  nothing.
\<close>

theorem single_pending_slot:
  assumes "run_events evs initial_session = (s, calls)"
      and "run_script e ev s = (f, s', c)"
  shows "(\<forall>d. pending_action s = Some d
            \<longrightarrow> pending_action s' = Some d \<or> pending_action s' = None)
       \<and> (\<forall>d. pending_action s = None \<and> pending_action s' = Some d
            \<longrightarrow> (\<exists>prompt t a. ev = Chat_submitted prompt \<and> d = Action t a))
       \<and> (pending_action s \<noteq> None \<and> (ev = Approve_clicked \<or> ev = Reject_clicked)
            \<longrightarrow> pending_action s' = None)
       \<and> (pending_action s \<noteq> None \<and> (\<exists>prompt. ev = Chat_submitted prompt) \<longrightarrow> s' = s)"
proof -
  have inv: "\<forall>r. pending_action s \<noteq> Some (Chat r)"
    using run_events_no_chat_pending [OF _ assms(1)] by (simp add: initial_session_def)
  have a: "\<forall>d. pending_action s = Some d
            \<longrightarrow> pending_action s' = Some d \<or> pending_action s' = None"
    using run_script_keeps_pending [OF _ assms(2)] by blast
  have b: "\<forall>d. pending_action s = None \<and> pending_action s' = Some d
            \<longrightarrow> (\<exists>prompt t a. ev = Chat_submitted prompt \<and> d = Action t a)"
    using run_script_new_pending [OF _ assms(2)] by blast
  have c: "pending_action s \<noteq> None \<and> (ev = Approve_clicked \<or> ev = Reject_clicked)
            \<longrightarrow> pending_action s' = None"
  proof (intro impI, elim conjE)
    assume p: "pending_action s \<noteq> None" and ev: "ev = Approve_clicked \<or> ev = Reject_clicked"
    from p obtain d where d: "pending_action s = Some d" by auto
    with inv obtain t a where "pending_action s = Some (Action t a)"
      by (cases d) auto
    then show "pending_action s' = None"
      using run_script_decision_clears [OF _ ev assms(2)] by blast
  qed
  have d: "pending_action s \<noteq> None \<and> (\<exists>prompt. ev = Chat_submitted prompt) \<longrightarrow> s' = s"
    using run_script_chat_while_pending assms(2) by blast
  show ?thesis using a b c d by blast
qed

theorem single_pending_slot_witness:
  "run_events [(env_health, Chat_submitted ''Check health of web-api'')] initial_session
     = (awaiting_health, [])
   \<and> run_script env_health (Chat_submitted ''Restart db'') awaiting_health
       = (Fallthrough, awaiting_health, [])
   \<and> pending_action awaiting_health
       = Some (Action ''get_service_health'' [(''service_name'', PyStr ''web-api'')])"
proof -
  have h1: "run_events [(env_health, Chat_submitted ''Check health of web-api'')]
              initial_session = (awaiting_health, [])"
    by (simp add: run_script_def sidebar_def approval_widget_def chat_input_def Let_def
          initial_session_def awaiting_health_def env_health_def engine_health_def
          health_call_def analyze_request_def analyze_try_def)
  have h2: "run_script env_health (Chat_submitted ''Restart db'') awaiting_health
              = (Fallthrough, awaiting_health, [])"
    by (simp add: run_script_def sidebar_def approval_widget_def chat_input_def
          awaiting_health_def)
  show ?thesis
    using single_pending_slot [OF h1 h2] h1 h2 by (simp add: awaiting_health_def)
qed

end
